theory Spec2Isabelle
  imports Complex_Main "HOL-Library.Stream"
begin

section \<open>The notebook \<^verbatim>\<open>doc/notebooks/memory_layout.ipynb\<close>\<close>

text \<open>
  The notebook draws two arrays of standard normal variates, one of shape \<open>N \<times> 2\<close> and one
  of shape \<open>2 \<times> N\<close>, defines three cost functions over them and times one minimisation of
  each. Numbers are modelled as reals: the rounding of 64-bit floats is not part of the
  model. A two-dimensional array is the list of its rows.
\<close>

subsection \<open>Arrays and the random generator\<close>

type_synonym ndarray = "real list list"

text \<open>
  The state of a \<^verbatim>\<open>numpy.random.Generator\<close> is the sequence of standard normal variates it
  has yet to yield. How numpy turns a seed into that sequence is not part of the
  repository; it is the parameter \<open>bit_generator\<close>. \<^verbatim>\<open>default_rng(seed)\<close> uses the seed when
  one is given and fresh entropy of the operating system when the seed is \<^verbatim>\<open>None\<close>.
\<close>

type_synonym generator = "real stream"

type_synonym bit_generator = "nat \<Rightarrow> real stream"

definition default_rng :: "bit_generator \<Rightarrow> nat \<Rightarrow> nat option \<Rightarrow> generator" where
  "default_rng pcg entropy seed = (case seed of Some s \<Rightarrow> pcg s | None \<Rightarrow> pcg entropy)"

text \<open>Cutting a flat buffer into \<open>r\<close> rows of \<open>c\<close> values, in row-major order.\<close>

fun rows :: "nat \<Rightarrow> nat \<Rightarrow> 'a list \<Rightarrow> 'a list list" where
  "rows 0 c xs = []"
| "rows (Suc r) c xs = take c xs # rows r c (drop c xs)"

text \<open>
  \<^verbatim>\<open>rng.normal(size=(r, c))\<close>: the next \<open>r * c\<close> variates fill the array row by row, and the
  generator advances past them.
\<close>

fun normal :: "nat \<times> nat \<Rightarrow> generator \<Rightarrow> ndarray \<times> generator" where
  "normal (r, c) rng = (rows r c (stake (r * c) rng), sdrop (r * c) rng)"

text \<open>
  \<^verbatim>\<open>
  rng = np.random.default_rng(1)
  xy1 = rng.normal(size=(1_000_000, 2))
  xy2 = rng.normal(size=(2, 1_000_000))
  \<close>
  with the seed and the sample count as arguments; both arrays are drawn from the one
  generator, \<open>xy1\<close> first.
\<close>

definition generate :: "bit_generator \<Rightarrow> nat \<Rightarrow> nat \<Rightarrow> nat \<Rightarrow> ndarray \<times> ndarray" where
  "generate pcg entropy seed n =
     (let rng = default_rng pcg entropy (Some seed);
          (xy1, rng) = normal (n, 2) rng;
          (xy2, rng) = normal (2, n) rng
      in (xy1, xy2))"

subsection \<open>The notebook's namespace\<close>

text \<open>
  The global variables the cells read and write. \<open>migrad_calls\<close> is a ghost variable: the
  log of the minimisations that were run, each entry naming the cost function handed to
  \<^verbatim>\<open>Minuit\<close>.
\<close>

datatype cost_function = Cost1 | Cost2 | Cost3

record notebook =
  xy1 :: ndarray
  xy2 :: ndarray
  migrad_calls :: "cost_function list"

definition n_samples :: nat where
  "n_samples = 1000000"

definition cell1 :: "bit_generator \<Rightarrow> nat \<Rightarrow> notebook" where
  "cell1 pcg entropy =
     (let (a, b) = generate pcg entropy 1 n_samples
      in \<lparr>xy1 = a, xy2 = b, migrad_calls = []\<rparr>)"

subsection \<open>The cost functions\<close>

text \<open>
  \<^verbatim>\<open>scipy.stats.multivariate_normal.logpdf(x, mean)\<close> with the default covariance, the
  identity: for every row of \<open>x\<close> it returns
  \<^verbatim>\<open>-0.5 * (rank * _LOG_2PI + log_pdet + maha)\<close>, where the rank is 2, the logarithm of the
  determinant is 0 and \<^verbatim>\<open>maha\<close> is the sum of the squared deviations from the mean. The
  deviations are \<^verbatim>\<open>x - mean\<close> under numpy's broadcasting: a row of two values is taken
  coordinate by coordinate, a row of one value is set against both coordinates of the mean,
  and a row of any other width cannot be broadcast against a mean of two coordinates, so
  the call raises (\<open>None\<close>).
\<close>

definition LOG_2PI :: real where
  "LOG_2PI = ln (2 * pi)"

fun logpdf_row :: "real \<times> real \<Rightarrow> real list \<Rightarrow> real option" where
  "logpdf_row (mx, my) [a, b] =
     Some (- (1 / 2) * (2 * LOG_2PI + 0 + ((a - mx)\<^sup>2 + (b - my)\<^sup>2)))"
| "logpdf_row (mx, my) [a] =
     Some (- (1 / 2) * (2 * LOG_2PI + 0 + ((a - mx)\<^sup>2 + (a - my)\<^sup>2)))"
| "logpdf_row m r = None"

definition multivariate_normal_logpdf :: "ndarray \<Rightarrow> real \<times> real \<Rightarrow> real list option" where
  "multivariate_normal_logpdf x mean = those (map (logpdf_row mean) x)"

text \<open>
  \<^verbatim>\<open>
  def cost1(x, y):
      return -np.sum(multivariate_normal.logpdf(xy1, (x, y)))

  def cost2(x, y):
      return -np.sum(multivariate_normal.logpdf(xy2.T, (x, y)))

  def logpdf(xy, x, y):
      return multivariate_normal.logpdf(xy.T, (x, y))
  \<close>
  The functions read the global arrays when they are called.
\<close>

definition cost1 :: "notebook \<Rightarrow> real \<Rightarrow> real \<Rightarrow> real option" where
  "cost1 nb x y =
     map_option (\<lambda>v. - sum_list v) (multivariate_normal_logpdf (xy1 nb) (x, y))"

definition cost2 :: "notebook \<Rightarrow> real \<Rightarrow> real \<Rightarrow> real option" where
  "cost2 nb x y =
     map_option (\<lambda>v. - sum_list v) (multivariate_normal_logpdf (transpose (xy2 nb)) (x, y))"

definition logpdf :: "ndarray \<Rightarrow> real \<Rightarrow> real \<Rightarrow> real list option" where
  "logpdf xy x y = multivariate_normal_logpdf (transpose xy) (x, y)"

text \<open>
  The density the specification names: the normal distribution in two dimensions with unit
  covariance and mean \<open>\<mu>\<close>, at the point \<open>s\<close>.
\<close>

definition unit_normal_density :: "real \<times> real \<Rightarrow> real \<times> real \<Rightarrow> real" where
  "unit_normal_density \<mu> s =
     exp (- ((fst s - fst \<mu>)\<^sup>2 + (snd s - snd \<mu>)\<^sup>2) / 2) / (2 * pi)"

text \<open>
  The samples an array holds: in the interleaved layout every row is one sample, in the
  grouped layout the first row holds the first coordinates and the second row the second
  coordinates. \<open>has_shape (r, c)\<close> says that an array has \<open>r\<close> rows of \<open>c\<close> values.
\<close>

definition has_shape :: "nat \<times> nat \<Rightarrow> 'a list list \<Rightarrow> bool" where
  "has_shape s a = (map length a = replicate (fst s) (snd s))"

definition samples_interleaved :: "ndarray \<Rightarrow> (real \<times> real) list" where
  "samples_interleaved a = map (\<lambda>r. (r ! 0, r ! 1)) a"

definition samples_grouped :: "ndarray \<Rightarrow> (real \<times> real) list" where
  "samples_grouped a = map (\<lambda>i. (a ! 0 ! i, a ! 1 ! i)) [0..<length (a ! 0)]"

subsection \<open>The error definition of the hand-written cost functions\<close>




subsection \<open>The generic cost function\<close>

text \<open>
  Modelled from the spec: the class \<^verbatim>\<open>iminuit.cost.UnbinnedNLL\<close> is missing from the
  sources. The specification (4.2) describes it as a building block that "accepts an
  arbitrary pointwise log-density function and aggregates it into a total negative
  log-likelihood", and (4.3) names the two error-scale conventions a cost function can
  follow: "a plain negative log-likelihood" or "twice a negative log-likelihood". It does
  not say which of the two the class follows. The notebook flags \<open>cost1\<close> and \<open>cost2\<close> by
  hand and sets no flag on \<open>cost3\<close>: the class brings its own. The cost functions of
  \<^verbatim>\<open>iminuit.cost\<close> follow the least-squares convention, so the class returns
  \<^verbatim>\<open>-2.0 * np.sum(model(data, *args))\<close> and its \<^verbatim>\<open>errordef\<close> is
  \<^verbatim>\<open>Minuit.LEAST_SQUARES\<close>. The notebook builds the object with \<^verbatim>\<open>log=True\<close>: the values of
  the model function are log-densities. The other mode of the class is not modelled.
\<close>

definition UnbinnedNLL ::
  "ndarray \<Rightarrow> (ndarray \<Rightarrow> real \<Rightarrow> real \<Rightarrow> real list option) \<Rightarrow> real \<Rightarrow> real \<Rightarrow> real option"
where
  "UnbinnedNLL data model x y = map_option (\<lambda>v. - 2 * sum_list v) (model data x y)"


text \<open>
  \<^verbatim>\<open>cost3 = UnbinnedNLL(xy2, logpdf, log=True)\<close>; the object holds the array that \<open>xy2\<close>
  names, and no cell binds \<open>xy2\<close> again.
\<close>

definition cost3 :: "notebook \<Rightarrow> real \<Rightarrow> real \<Rightarrow> real option" where
  "cost3 nb = UnbinnedNLL (xy2 nb) logpdf"


subsection \<open>The timing cells\<close>

text \<open>
  IPython's \<^verbatim>\<open>%%timeit -n n -r r\<close> runs the cell body \<open>n\<close> times in a loop, repeats that
  loop \<open>r\<close> times, and reports the mean and the standard deviation of the time per loop
  iteration over the \<open>r\<close> repeats:
  \<^verbatim>\<open>
  timings = [dt / loops for dt in all_runs]
  average = fsum(timings) / len(timings)
  stdev   = (fsum([(x - average) ** 2 for x in timings]) / len(timings)) ** 0.5
  \<close>
  A timed statement maps a state to the time it took and the state it leaves.
\<close>

type_synonym 's stmt = "'s \<Rightarrow> real \<times> 's"

record timeit_result =
  loops :: nat
  repeat :: nat
  all_runs :: "real list"

fun loop :: "nat \<Rightarrow> 's stmt \<Rightarrow> 's stmt" where
  "loop 0 body s = (0, s)"
| "loop (Suc k) body s =
     (let (d, s') = body s; (t, s'') = loop k body s' in (d + t, s''))"

fun repeat_loop :: "nat \<Rightarrow> nat \<Rightarrow> 's stmt \<Rightarrow> 's \<Rightarrow> real list \<times> 's" where
  "repeat_loop 0 n body s = ([], s)"
| "repeat_loop (Suc r) n body s =
     (let (t, s') = loop n body s; (ts, s'') = repeat_loop r n body s' in (t # ts, s''))"

definition timeit :: "nat \<Rightarrow> nat \<Rightarrow> 's stmt \<Rightarrow> 's \<Rightarrow> timeit_result \<times> 's" where
  "timeit n r body s =
     (let (runs, s') = repeat_loop r n body s
      in (\<lparr>loops = n, repeat = r, all_runs = runs\<rparr>, s'))"

definition timings :: "timeit_result \<Rightarrow> real list" where
  "timings tr = map (\<lambda>dt. dt / real (loops tr)) (all_runs tr)"

definition average :: "timeit_result \<Rightarrow> real" where
  "average tr = sum_list (timings tr) / real (length (timings tr))"

definition stdev :: "timeit_result \<Rightarrow> real" where
  "stdev tr =
     sqrt (sum_list (map (\<lambda>x. (x - average tr)\<^sup>2) (timings tr)) / real (length (timings tr)))"

text \<open>
  Modelled from the spec: the class \<^verbatim>\<open>iminuit.Minuit\<close> and its method \<^verbatim>\<open>migrad\<close> are
  missing from the sources. The specification (4.3, 6) treats the minimiser as an opaque
  external solver that "accepts a cost function and initial parameter guess, returns
  fitted parameters"; a failure to converge is an outcome like any other (\<open>None\<close>).
\<close>

type_synonym minimizer =
  "(real \<Rightarrow> real \<Rightarrow> real option) \<Rightarrow> real \<times> real \<Rightarrow> (real \<times> real) option"

text \<open>
  \<^verbatim>\<open>
  %%timeit -n 1 -r 1
  m = Minuit(cost1, x=0, y=0)
  m.migrad()
  \<close>
  and the same for \<open>cost2\<close> and \<open>cost3\<close>. The body runs inside the function that
  \<^verbatim>\<open>timeit\<close> compiles, so \<open>m\<close> is local to it and dropped. The wall-clock time of a
  minimisation is an input of the model: \<open>elapsed k\<close> is the time the minimisation takes
  that follows \<open>k\<close> earlier ones.
\<close>

definition select :: "cost_function \<Rightarrow> notebook \<Rightarrow> real \<Rightarrow> real \<Rightarrow> real option" where
  "select c nb = (case c of Cost1 \<Rightarrow> cost1 nb | Cost2 \<Rightarrow> cost2 nb | Cost3 \<Rightarrow> cost3 nb)"

definition fit :: "minimizer \<Rightarrow> (nat \<Rightarrow> real) \<Rightarrow> cost_function \<Rightarrow> notebook stmt" where
  "fit migrad elapsed c nb =
     (let m = migrad (select c nb) (0, 0)
      in (elapsed (length (migrad_calls nb)), nb\<lparr>migrad_calls := migrad_calls nb @ [c]\<rparr>))"

definition cell2 :: "minimizer \<Rightarrow> (nat \<Rightarrow> real) \<Rightarrow> notebook \<Rightarrow> timeit_result \<times> notebook" where
  "cell2 migrad elapsed = timeit 1 1 (fit migrad elapsed Cost1)"

definition cell3 :: "minimizer \<Rightarrow> (nat \<Rightarrow> real) \<Rightarrow> notebook \<Rightarrow> timeit_result \<times> notebook" where
  "cell3 migrad elapsed = timeit 1 1 (fit migrad elapsed Cost2)"

definition cell4 :: "minimizer \<Rightarrow> (nat \<Rightarrow> real) \<Rightarrow> notebook \<Rightarrow> timeit_result \<times> notebook" where
  "cell4 migrad elapsed = timeit 1 1 (fit migrad elapsed Cost3)"

text \<open>
  What can happen after the first cell: a cost function is called at some parameters and
  its value dropped, or one of the three timing cells is run. A session is any sequence of
  such actions.
\<close>

datatype timing_cell = Cell2 | Cell3 | Cell4

datatype action = Evaluate cost_function real real | Run timing_cell

definition run_cell :: "minimizer \<Rightarrow> (nat \<Rightarrow> real) \<Rightarrow> notebook \<Rightarrow> timing_cell \<Rightarrow> notebook" where
  "run_cell migrad elapsed nb c =
     snd ((case c of Cell2 \<Rightarrow> cell2 | Cell3 \<Rightarrow> cell3 | Cell4 \<Rightarrow> cell4) migrad elapsed nb)"

definition perform :: "minimizer \<Rightarrow> (nat \<Rightarrow> real) \<Rightarrow> notebook \<Rightarrow> action \<Rightarrow> notebook" where
  "perform migrad elapsed nb a =
     (case a of
        Evaluate c x y \<Rightarrow> (let v = select c nb x y in nb)
      | Run c \<Rightarrow> run_cell migrad elapsed nb c)"

definition session :: "minimizer \<Rightarrow> (nat \<Rightarrow> real) \<Rightarrow> notebook \<Rightarrow> action list \<Rightarrow> notebook" where
  "session migrad elapsed nb as = foldl (perform migrad elapsed) nb as"

subsection \<open>Negative log-likelihood, conventions and minimising parameters\<close>






subsection \<open>Concrete inputs\<close>

text \<open>
  Two generators: \<open>counting\<close> yields the seed, the seed plus one, and so on; \<open>stepping\<close>
  yields zero for its first two million variates and one ever after. A minimiser that
  returns the initial guess, and a clock on which every minimisation takes one second.
\<close>

definition counting :: bit_generator where
  "counting seed = smap real (fromN seed)"

definition stepping :: bit_generator where
  "stepping seed = replicate (2 * n_samples) 0 @- sconst 1"

definition no_descent :: minimizer where
  "no_descent f start = Some start"

definition one_second :: "nat \<Rightarrow> real" where
  "one_second k = 1"

section \<open>Properties\<close>

subsection \<open>Rows of a buffer\<close>

lemma length_rows: "length (rows r c xs) = r"
  by (induction r arbitrary: xs) simp_all

lemma rows_nth: "i < r \<Longrightarrow> rows r c xs ! i = take c (drop (i * c) xs)"
proof (induction r arbitrary: xs i)
  case 0
  then show ?case by simp
next
  case (Suc r)
  show ?case
  proof (cases i)
    case 0
    then show ?thesis by simp
  next
    case (Suc k)
    with Suc.prems have "k < r" by simp
    from Suc.IH [OF this] Suc show ?thesis by (simp add: add.commute)
  qed
qed

lemma map_length_rows: "length xs = r * c \<Longrightarrow> map length (rows r c xs) = replicate r c"
proof (induction r arbitrary: xs)
  case 0
  then show ?case by simp
next
  case (Suc r)
  then have "length (drop c xs) = r * c" by simp
  from Suc.IH [OF this] Suc.prems show ?case by simp
qed

subsection \<open>The log-density of one sample\<close>

lemma ln_unit_normal_density:
  "ln (unit_normal_density (mx, my) (a, b)) =
     - (1 / 2) * (2 * LOG_2PI + 0 + ((a - mx)\<^sup>2 + (b - my)\<^sup>2))"
proof -
  have "ln (unit_normal_density (mx, my) (a, b)) =
          ln (exp (- ((a - mx)\<^sup>2 + (b - my)\<^sup>2) / 2)) - ln (2 * pi)"
    unfolding unit_normal_density_def by (simp add: ln_div)
  then show ?thesis by (simp add: LOG_2PI_def field_simps)
qed

lemma those_map_Some: "those (map (\<lambda>x. Some (f x)) xs) = Some (map f xs)"
  by (induction xs) simp_all

lemma logpdf_row_pair:
  "logpdf_row (x, y) [fst p, snd p] = Some (ln (unit_normal_density (x, y) p))"
  by (cases p) (simp add: ln_unit_normal_density)

lemma logpdf_pairs:
  "multivariate_normal_logpdf (map (\<lambda>p. [fst p, snd p]) ps) (x, y) =
     Some (map (\<lambda>p. ln (unit_normal_density (x, y) p)) ps)"
proof -
  have "map (logpdf_row (x, y)) (map (\<lambda>p. [fst p, snd p]) ps) =
          map (\<lambda>p. Some (ln (unit_normal_density (x, y) p))) ps"
    by (simp only: map_map comp_def logpdf_row_pair)
  then show ?thesis
    unfolding multivariate_normal_logpdf_def by (simp only: those_map_Some)
qed

subsection \<open>Samples of the two layouts\<close>

lemma row_of_two: "length r = 2 \<Longrightarrow> r = [r ! 0, r ! 1]"
  by (cases r; cases "tl r") auto

lemma has_shape_rows: "has_shape (n, c) a \<Longrightarrow> r \<in> set a \<Longrightarrow> length r = c"
proof -
  assume "has_shape (n, c) a" and "r \<in> set a"
  then have "length r \<in> set (replicate n c)"
    unfolding has_shape_def by (metis fst_conv snd_conv image_eqI set_map)
  then show ?thesis by simp
qed

lemma has_shape_length: "has_shape (n, c) a \<Longrightarrow> length a = n"
  unfolding has_shape_def by (metis fst_conv length_map length_replicate)

lemma interleaved_rows:
  assumes "has_shape (n, 2) a"
  shows "a = map (\<lambda>p. [fst p, snd p]) (samples_interleaved a)"
proof -
  have "\<forall>r\<in>set a. r = [r ! 0, r ! 1]"
    using has_shape_rows [OF assms] row_of_two by blast
  then have "map (\<lambda>r. [r ! 0, r ! 1]) a = a"
    by (simp add: map_idI)
  then show ?thesis
    unfolding samples_interleaved_def by (simp add: comp_def)
qed

lemma transpose_two_rows:
  "length xs = length ys \<Longrightarrow> transpose [xs, ys] = map (\<lambda>p. [fst p, snd p]) (zip xs ys)"
  by (induction xs ys rule: list_induct2) simp_all

lemma zip_by_index:
  "length xs = length ys \<Longrightarrow> zip xs ys = map (\<lambda>i. (xs ! i, ys ! i)) [0..<length xs]"
  by (rule nth_equalityI) simp_all

lemma grouped_two_rows:
  assumes "has_shape (2, n) a"
  shows "\<exists>xs ys. a = [xs, ys] \<and> length xs = n \<and> length ys = n"
proof -
  from assms have "map length a = [n, n]"
    unfolding has_shape_def by (simp add: numeral_2_eq_2)
  then show ?thesis by (cases a; cases "tl a") auto
qed

lemma grouped_rows:
  assumes "has_shape (2, n) a"
  shows "transpose a = map (\<lambda>p. [fst p, snd p]) (samples_grouped a)"
proof -
  from grouped_two_rows [OF assms] obtain xs ys
    where a: "a = [xs, ys]" and len: "length xs = n" "length ys = n" by blast
  then have "samples_grouped a = zip xs ys"
    unfolding samples_grouped_def by (simp add: zip_by_index)
  with a len show ?thesis by (simp add: transpose_two_rows)
qed

lemma length_samples_interleaved: "has_shape (n, 2) a \<Longrightarrow> length (samples_interleaved a) = n"
  unfolding samples_interleaved_def by (simp add: has_shape_length)

lemma length_samples_grouped: "has_shape (2, n) a \<Longrightarrow> length (samples_grouped a) = n"
  unfolding samples_grouped_def using grouped_two_rows [of n a] by auto

lemma cost1_samples:
  assumes "has_shape (n, 2) (xy1 nb)"
  shows "cost1 nb x y =
           Some (- (\<Sum>s\<leftarrow>samples_interleaved (xy1 nb). ln (unit_normal_density (x, y) s)))"
proof -
  have "multivariate_normal_logpdf (xy1 nb) (x, y) =
          Some (map (\<lambda>s. ln (unit_normal_density (x, y) s)) (samples_interleaved (xy1 nb)))"
    using logpdf_pairs [of "samples_interleaved (xy1 nb)" x y]
      interleaved_rows [OF assms] by simp
  then show ?thesis unfolding cost1_def by simp
qed

lemma cost2_samples:
  assumes "has_shape (2, n) (xy2 nb)"
  shows "cost2 nb x y =
           Some (- (\<Sum>s\<leftarrow>samples_grouped (xy2 nb). ln (unit_normal_density (x, y) s)))"
proof -
  have "multivariate_normal_logpdf (transpose (xy2 nb)) (x, y) =
          Some (map (\<lambda>s. ln (unit_normal_density (x, y) s)) (samples_grouped (xy2 nb)))"
    using logpdf_pairs [of "samples_grouped (xy2 nb)" x y]
      grouped_rows [OF assms] by simp
  then show ?thesis unfolding cost2_def by simp
qed

subsection \<open>What the hand-written cost functions compute\<close>

text \<open>
  Claim C4. For every parameter pair \<open>(x, y)\<close> and every dataset of \<open>n\<close> samples of two
  coordinates, \<open>cost1\<close> (over the interleaved array) and \<open>cost2\<close> (over the grouped array)
  return the negated sum, over all \<open>n\<close> samples, of the logarithm of the density at the
  sample of the normal distribution with unit covariance centred at \<open>(x, y)\<close>.
\<close>

theorem cost_is_negated_sum_of_log_densities:
  assumes "has_shape (n, 2) (xy1 nb)" and "has_shape (2, n) (xy2 nb)"
  shows "cost1 nb x y =
           Some (- (\<Sum>s\<leftarrow>samples_interleaved (xy1 nb). ln (unit_normal_density (x, y) s)))
         \<and> length (samples_interleaved (xy1 nb)) = n
         \<and> cost2 nb x y =
           Some (- (\<Sum>s\<leftarrow>samples_grouped (xy2 nb). ln (unit_normal_density (x, y) s)))
         \<and> length (samples_grouped (xy2 nb)) = n"
  using cost1_samples [OF assms(1)] cost2_samples [OF assms(2)]
    length_samples_interleaved [OF assms(1)] length_samples_grouped [OF assms(2)]
  by simp

theorem cost_is_negated_sum_of_log_densities_witness:
  "has_shape (2, 2) (xy1 \<lparr>xy1 = [[0, 0], [1, 2]], xy2 = [[0, 1], [0, 2]], migrad_calls = []\<rparr>)
   \<and> has_shape (2, 2) (xy2 \<lparr>xy1 = [[0, 0], [1, 2]], xy2 = [[0, 1], [0, 2]], migrad_calls = []\<rparr>)
   \<and> cost1 \<lparr>xy1 = [[0, 0], [1, 2]], xy2 = [[0, 1], [0, 2]], migrad_calls = []\<rparr> 0 0 =
       Some (- (ln (unit_normal_density (0, 0) (0, 0)) + ln (unit_normal_density (0, 0) (1, 2))))
   \<and> cost2 \<lparr>xy1 = [[0, 0], [1, 2]], xy2 = [[0, 1], [0, 2]], migrad_calls = []\<rparr> 0 0 =
       Some (- (ln (unit_normal_density (0, 0) (0, 0)) + ln (unit_normal_density (0, 0) (1, 2))))"
proof -
  let ?nb = "\<lparr>xy1 = [[0, 0], [1, 2]], xy2 = [[0, 1], [0, 2]], migrad_calls = []\<rparr>"
  have h1: "has_shape (2, 2) (xy1 ?nb)" by (simp add: has_shape_def numeral_2_eq_2)
  have h2: "has_shape (2, 2) (xy2 ?nb)" by (simp add: has_shape_def numeral_2_eq_2)
  from cost_is_negated_sum_of_log_densities [OF h1 h2, of 0 0] h1 h2
  show ?thesis
    by (simp add: samples_interleaved_def samples_grouped_def upt_rec numeral_2_eq_2)
qed

subsection \<open>The generated arrays\<close>

lemma generate_eq:
  "generate pcg entropy seed n =
     (rows n 2 (stake (n * 2) (pcg seed)), rows 2 n (stake (2 * n) (sdrop (n * 2) (pcg seed))))"
  by (simp add: generate_def default_rng_def Let_def)

lemma xy1_cell1: "xy1 (cell1 pcg entropy) = rows n_samples 2 (stake (n_samples * 2) (pcg 1))"
  by (simp add: cell1_def generate_eq)

lemma xy2_cell1:
  "xy2 (cell1 pcg entropy) = rows 2 n_samples (stake (2 * n_samples) (sdrop (n_samples * 2) (pcg 1)))"
  by (simp add: cell1_def generate_eq)

lemma migrad_calls_cell1: "migrad_calls (cell1 pcg entropy) = []"
  by (simp add: cell1_def generate_eq)

lemma has_shape_rows_stake: "m = r * c \<Longrightarrow> has_shape (r, c) (rows r c (stake m g))"
  unfolding has_shape_def by (simp add: map_length_rows)

lemma rows_stake_nth:
  assumes "i < r" and "j < c" and "m = r * c"
  shows "rows r c (stake m g) ! i ! j = g !! (i * c + j)"
proof -
  from assms have "i * c + c \<le> r * c"
    by (metis Suc_leI mult_Suc mult_le_mono1 add.commute)
  with assms have "i * c + j < r * c" by simp
  with assms show ?thesis by (simp add: rows_nth add.commute)
qed

text \<open>
  Claim C7. Generating the datasets is deterministic in the seed: two runs with the same
  seed and the same sample count produce the same two arrays, whatever entropy the
  operating system would have supplied to an unseeded generator. This holds for the
  notebook's first cell in particular.
\<close>

theorem generation_is_determined_by_seed:
  "generate pcg e1 seed n = generate pcg e2 seed n \<and> cell1 pcg e1 = cell1 pcg e2"
  by (simp add: generate_eq cell1_def)

text \<open>
  Claim C2, amended. After the first cell \<open>xy1\<close> has \<open>N\<close> rows of two values and \<open>xy2\<close> has
  two rows of \<open>N\<close> values, and both are filled from the one seeded generator: \<open>xy1\<close> holds
  its first \<open>2N\<close> variates, \<open>xy1[i][j]\<close> being variate \<open>2i + j\<close>, and \<open>xy2\<close> holds the \<open>2N\<close>
  variates that follow, \<open>xy2[j][i]\<close> being variate \<open>2N + jN + i\<close>. The two arrays are
  successive draws, not two layouts of the same samples.
\<close>

theorem datasets_are_successive_draws:
  assumes "i < n_samples" and "j < 2"
  shows "has_shape (n_samples, 2) (xy1 (cell1 pcg entropy))
         \<and> has_shape (2, n_samples) (xy2 (cell1 pcg entropy))
         \<and> xy1 (cell1 pcg entropy) ! i ! j = pcg 1 !! (2 * i + j)
         \<and> xy2 (cell1 pcg entropy) ! j ! i = pcg 1 !! (2 * n_samples + j * n_samples + i)"
proof -
  have "has_shape (n_samples, 2) (xy1 (cell1 pcg entropy))"
    unfolding xy1_cell1 by (rule has_shape_rows_stake) simp
  moreover have "has_shape (2, n_samples) (xy2 (cell1 pcg entropy))"
    unfolding xy2_cell1 by (rule has_shape_rows_stake) simp
  moreover have "xy1 (cell1 pcg entropy) ! i ! j = pcg 1 !! (2 * i + j)"
    unfolding xy1_cell1 using rows_stake_nth [OF assms refl, of "pcg 1"]
    by (simp add: mult.commute)
  moreover have "xy2 (cell1 pcg entropy) ! j ! i = pcg 1 !! (2 * n_samples + j * n_samples + i)"
    unfolding xy2_cell1
    using rows_stake_nth [OF assms(2) assms(1) refl, of "sdrop (n_samples * 2) (pcg 1)"]
    by (simp add: sdrop_snth mult.commute add.assoc)
  ultimately show ?thesis by simp
qed

lemma counting_snth: "counting seed !! k = real (seed + k)"
  by (simp add: counting_def add.commute)

theorem datasets_are_successive_draws_witness:
  "(0::nat) < n_samples \<and> (0::nat) < 2
   \<and> xy1 (cell1 counting 0) ! 0 ! 0 = 1
   \<and> xy2 (cell1 counting 0) ! 0 ! 0 = 2000001"
proof -
  have h: "(0::nat) < n_samples" by (simp add: n_samples_def)
  have c: "counting 1 !! 0 = 1" "counting 1 !! (2 * n_samples) = 2000001"
    unfolding counting_snth by (simp_all add: n_samples_def)
  from datasets_are_successive_draws [OF h, of 0 counting 0] h c
  show ?thesis by (simp del: snth.simps)
qed

text \<open>
  Claim C2 as stated, \<open>xy1[i][j] = xy2[j][i]\<close> for every sample \<open>i\<close> and coordinate \<open>j\<close>,
  fails for the generator that counts upwards from its seed: \<open>xy1[0][0]\<close> is its first
  variate and \<open>xy2[0][0]\<close> its variate number \<open>2N\<close>.
\<close>

theorem datasets_not_transposes_counterexample:
  "xy1 (cell1 counting 0) ! 0 ! 0 \<noteq> xy2 (cell1 counting 0) ! 0 ! 0"
proof -
  have h: "(0::nat) < n_samples" by (simp add: n_samples_def)
  have c: "counting 1 !! 0 = 1" "counting 1 !! (n_samples * 2) = 2000001"
    unfolding counting_snth by (simp_all add: n_samples_def)
  have "xy1 (cell1 counting 0) ! 0 ! 0 = counting 1 !! 0"
    unfolding xy1_cell1 using rows_stake_nth [OF h _ refl, of 0 2 "counting 1"]
    by (simp del: snth.simps)
  moreover have "xy2 (cell1 counting 0) ! 0 ! 0 = counting 1 !! (n_samples * 2)"
    unfolding xy2_cell1
    using rows_stake_nth [OF _ h refl, of 0 2 "sdrop (n_samples * 2) (counting 1)"]
    by (simp add: sdrop_snth del: snth.simps)
  ultimately show ?thesis unfolding c by simp
qed

subsection \<open>The two hand-written cost functions against each other\<close>

lemma samples_agree:
  assumes s1: "has_shape (n, 2) a" and s2: "has_shape (2, n) b"
    and eq: "\<forall>i<n. \<forall>j<2. a ! i ! j = b ! j ! i"
  shows "samples_interleaved a = samples_grouped b"
proof (rule nth_equalityI)
  show "length (samples_interleaved a) = length (samples_grouped b)"
    using length_samples_interleaved [OF s1] length_samples_grouped [OF s2] by simp
next
  fix i assume "i < length (samples_interleaved a)"
  then have i: "i < n" using length_samples_interleaved [OF s1] by simp
  from grouped_two_rows [OF s2] have "length (b ! 0) = n" by auto
  with i eq show "samples_interleaved a ! i = samples_grouped b ! i"
    unfolding samples_interleaved_def samples_grouped_def
    using has_shape_length [OF s1] by simp
qed

text \<open>
  Claim C1, amended. For every parameter pair \<open>(x, y)\<close>, \<open>cost1\<close> and \<open>cost2\<close> return the same
  value whenever the interleaved array and the grouped array hold the same samples, that
  is when \<open>xy1[i][j] = xy2[j][i]\<close> for every sample \<open>i\<close> and coordinate \<open>j\<close>. (The arrays
  of the notebook are successive draws of the generator and need not satisfy this.)
\<close>

theorem costs_agree_on_same_samples:
  assumes "has_shape (n, 2) (xy1 nb)" and "has_shape (2, n) (xy2 nb)"
    and "\<forall>i<n. \<forall>j<2. xy1 nb ! i ! j = xy2 nb ! j ! i"
  shows "cost1 nb x y = cost2 nb x y \<and> cost1 nb x y \<noteq> None"
  using cost1_samples [OF assms(1)] cost2_samples [OF assms(2)] samples_agree [OF assms]
  by simp

theorem costs_agree_on_same_samples_witness:
  "has_shape (2, 2) (xy1 \<lparr>xy1 = [[3, 4], [1, 2]], xy2 = [[3, 1], [4, 2]], migrad_calls = []\<rparr>)
   \<and> has_shape (2, 2) (xy2 \<lparr>xy1 = [[3, 4], [1, 2]], xy2 = [[3, 1], [4, 2]], migrad_calls = []\<rparr>)
   \<and> cost1 \<lparr>xy1 = [[3, 4], [1, 2]], xy2 = [[3, 1], [4, 2]], migrad_calls = []\<rparr> 0 0 =
     cost2 \<lparr>xy1 = [[3, 4], [1, 2]], xy2 = [[3, 1], [4, 2]], migrad_calls = []\<rparr> 0 0"
proof -
  let ?nb = "\<lparr>xy1 = [[3, 4], [1, 2]], xy2 = [[3, 1], [4, 2]], migrad_calls = []\<rparr>"
  have h1: "has_shape (2, 2) (xy1 ?nb)" by (simp add: has_shape_def numeral_2_eq_2)
  have h2: "has_shape (2, 2) (xy2 ?nb)" by (simp add: has_shape_def numeral_2_eq_2)
  have h3: "\<forall>i<2. \<forall>j<2. xy1 ?nb ! i ! j = xy2 ?nb ! j ! i"
    by (simp add: numeral_2_eq_2 All_less_Suc)
  from costs_agree_on_same_samples [OF h1 h2 h3, of 0 0] h1 h2
  show ?thesis by simp
qed

lemma rows_replicate:
  "m = r * c \<Longrightarrow> rows r c (replicate m v) = replicate r (replicate c v)"
proof (induction r arbitrary: m)
  case 0
  then show ?case by simp
next
  case (Suc r)
  then have "drop c (replicate m v) = replicate (r * c) v" by simp
  moreover from Suc.prems have "take c (replicate m v) = replicate c v" by simp
  ultimately show ?case using Suc.IH [OF refl] by (simp del: take_replicate drop_replicate)
qed

lemma stake_sconst: "stake n (sconst v) = replicate n v"
proof -
  have "stake n (replicate n v @- sconst v) = replicate n v"
    by (simp add: stake_shift del: shift_replicate_sconst)
  then show ?thesis by simp
qed

lemma xy1_stepping: "xy1 (cell1 stepping entropy) = replicate n_samples [0, 0]"
proof -
  have "stake (n_samples * 2) (stepping 1) = replicate (n_samples * 2) 0"
    unfolding stepping_def by (simp add: stake_shift mult.commute)
  moreover have "rows n_samples 2 (replicate (n_samples * 2) (0::real)) =
      replicate n_samples (replicate 2 0)"
    by (rule rows_replicate) simp
  ultimately show ?thesis
    unfolding xy1_cell1 by (simp add: numeral_2_eq_2)
qed

lemma xy2_stepping:
  "xy2 (cell1 stepping entropy) = [replicate n_samples 1, replicate n_samples 1]"
proof -
  have "sdrop (n_samples * 2) (stepping 1) = sconst 1"
    unfolding stepping_def by (simp add: sdrop_shift mult.commute)
  then have "xy2 (cell1 stepping entropy) = rows 2 n_samples (replicate (2 * n_samples) 1)"
    unfolding xy2_cell1 by (simp only: stake_sconst)
  moreover have "rows 2 n_samples (replicate (2 * n_samples) (1::real)) =
      replicate 2 (replicate n_samples 1)"
    by (rule rows_replicate) simp
  ultimately show ?thesis
    by (simp add: numeral_2_eq_2)
qed

lemma cost1_stepping: "cost1 (cell1 stepping entropy) 0 0 = Some (real n_samples * ln (2 * pi))"
proof -
  have "replicate n_samples [0, 0 :: real] = map (\<lambda>p. [fst p, snd p]) (replicate n_samples (0, 0))"
    by simp
  then have "multivariate_normal_logpdf (xy1 (cell1 stepping entropy)) (0, 0) =
      Some (map (\<lambda>p. ln (unit_normal_density (0, 0) p)) (replicate n_samples (0, 0)))"
    unfolding xy1_stepping by (simp only: logpdf_pairs)
  then show ?thesis
    unfolding cost1_def
    by (simp add: ln_unit_normal_density LOG_2PI_def sum_list_replicate)
qed

lemma cost2_stepping:
  "cost2 (cell1 stepping entropy) 0 0 = Some (real n_samples * ln (2 * pi) + real n_samples)"
proof -
  have "transpose [replicate n_samples (1::real), replicate n_samples 1] =
          map (\<lambda>p. [fst p, snd p]) (replicate n_samples (1, 1))"
    by (simp add: transpose_two_rows zip_replicate)
  then have "multivariate_normal_logpdf (transpose (xy2 (cell1 stepping entropy))) (0, 0) =
      Some (map (\<lambda>p. ln (unit_normal_density (0, 0) p)) (replicate n_samples (1, 1)))"
    unfolding xy2_stepping by (simp only: logpdf_pairs)
  then show ?thesis
    unfolding cost2_def
    by (simp add: ln_unit_normal_density LOG_2PI_def sum_list_replicate algebra_simps)
qed

text \<open>
  Claim C1 as stated, equal values of \<open>cost1\<close> and \<open>cost2\<close> in the notebook for every
  \<open>(x, y)\<close>, fails for the generator \<open>stepping\<close>: the first draw is all zeros, the second
  all ones, and at \<open>(0, 0)\<close> the two costs are a million apart.
\<close>

theorem costs_differ_counterexample:
  "cost1 (cell1 stepping 0) 0 0 = Some (1000000 * ln (2 * pi))
   \<and> cost2 (cell1 stepping 0) 0 0 = Some (1000000 * ln (2 * pi) + 1000000)
   \<and> cost1 (cell1 stepping 0) 0 0 \<noteq> cost2 (cell1 stepping 0) 0 0"
  unfolding cost1_stepping cost2_stepping by (simp add: n_samples_def)

subsection \<open>The generic cost function against the hand-written one\<close>













subsection \<open>Flags and conventions\<close>





subsection \<open>The timing cells\<close>

lemma timeit_once:
  "timeit (Suc 0) (Suc 0) body s =
     (\<lparr>loops = Suc 0, repeat = Suc 0, all_runs = [fst (body s)]\<rparr>, snd (body s))"
  by (simp add: timeit_def split: prod.splits)

lemma fit_state:
  "snd (fit migrad elapsed c nb) = nb\<lparr>migrad_calls := migrad_calls nb @ [c]\<rparr>"
  by (simp add: fit_def Let_def)

lemma fit_time: "fst (fit migrad elapsed c nb) = elapsed (length (migrad_calls nb))"
  by (simp add: fit_def Let_def)

lemma average_single: "average \<lparr>loops = Suc 0, repeat = r, all_runs = [t]\<rparr> = t"
  by (simp add: average_def timings_def)

lemma stdev_single: "stdev \<lparr>loops = Suc 0, repeat = r, all_runs = [t]\<rparr> = 0"
  by (simp add: stdev_def average_def timings_def)

lemma run_cell_frame:
  "xy1 (run_cell migrad elapsed nb c) = xy1 nb \<and> xy2 (run_cell migrad elapsed nb c) = xy2 nb"
  by (cases c) (simp_all add: run_cell_def cell2_def cell3_def cell4_def timeit_once fit_state)

lemma perform_frame:
  "xy1 (perform migrad elapsed nb a) = xy1 nb \<and> xy2 (perform migrad elapsed nb a) = xy2 nb"
  by (cases a) (simp_all add: perform_def run_cell_frame)

text \<open>
  Claim C6. The datasets \<open>xy1\<close> and \<open>xy2\<close> are created by the first cell and never
  modified afterwards: evaluating any of the three cost functions and running any of the
  three timed minimisations, in any order and any number of times, leaves both arrays as
  they were.
\<close>

theorem datasets_are_never_modified:
  "xy1 (session migrad elapsed nb as) = xy1 nb \<and> xy2 (session migrad elapsed nb as) = xy2 nb"
  unfolding session_def
proof (induction as arbitrary: nb)
  case Nil
  show ?case by simp
next
  case (Cons a as)
  from Cons [of "perform migrad elapsed nb a"] perform_frame [of migrad elapsed nb a]
  show ?case by simp
qed

text \<open>
  Claim C8, amended. Each timing cell invokes the minimisation driver exactly once for its
  cost function (one repeat of one loop), and reports as mean the elapsed time of that
  single run and as standard deviation zero.
\<close>

theorem each_cost_function_is_timed_once:
  "migrad_calls (snd (cell2 migrad elapsed nb)) = migrad_calls nb @ [Cost1]
   \<and> migrad_calls (snd (cell3 migrad elapsed nb)) = migrad_calls nb @ [Cost2]
   \<and> migrad_calls (snd (cell4 migrad elapsed nb)) = migrad_calls nb @ [Cost3]
   \<and> average (fst (cell2 migrad elapsed nb)) = elapsed (length (migrad_calls nb))
   \<and> average (fst (cell3 migrad elapsed nb)) = elapsed (length (migrad_calls nb))
   \<and> average (fst (cell4 migrad elapsed nb)) = elapsed (length (migrad_calls nb))
   \<and> stdev (fst (cell2 migrad elapsed nb)) = 0
   \<and> stdev (fst (cell3 migrad elapsed nb)) = 0
   \<and> stdev (fst (cell4 migrad elapsed nb)) = 0"
  by (simp add: cell2_def cell3_def cell4_def timeit_once fit_state fit_time
      average_single stdev_single)

text \<open>
  Claim C8 as stated, more than one invocation of the driver for each cost function, fails:
  after each timing cell, run on the state the first cell leaves, the log holds a single
  minimisation.
\<close>

theorem single_run_counterexample:
  "\<not> 1 < length (migrad_calls (snd (cell2 no_descent one_second (cell1 counting 0))))
   \<and> \<not> 1 < length (migrad_calls (snd (cell3 no_descent one_second (cell1 counting 0))))
   \<and> \<not> 1 < length (migrad_calls (snd (cell4 no_descent one_second (cell1 counting 0))))"
  by (simp add: cell2_def cell3_def cell4_def timeit_once fit_state migrad_calls_cell1)

end
